theory Spec2Isabelle
  imports Complex_Main "HOL-Library.AList"
begin

section \<open>The command log of \<open>nengo_gui/netgraph.py\<close>\<close>

text \<open>
  The undo and redo stacks are Python lists of action groups; a group is a list of
  action objects. The handler of \<open>netgraph.action\<close> (lines 419-441) writes the
  attributes \<open>self.undo_stack\<close> and \<open>self.redo_stack\<close> of the \<open>NetGraph\<close>,
  while \<open>NetGraph.undo\<close> and \<open>NetGraph.redo\<close> (lines 783-799) work on
  \<open>self.page.undo_stack\<close> and \<open>self.page.redo_stack\<close>. The file never binds
  \<open>self.page\<close>, so whether these are the same list objects is not decided by the
  source. The model therefore keeps the lists in a store and the four attributes as
  references into it: two attributes denote one stack exactly when they hold the same
  reference.

  The action classes live in the module \<open>user_action\<close>, which is not part of the
  sources. An action object is modelled by the class the handler selects together with
  the keyword arguments handed to its constructor; a call of \<open>act.undo()\<close> or
  \<open>act.apply()\<close> is recorded in the trace \<open>calls\<close>, in the order the calls are
  made.
\<close>

datatype action_class =
    ExpandCollapse bool
  | CreateGraph
  | Pos
  | Size
  | PosSize
  | FeedforwardLayout
  | ConfigAction
  | Action

datatype 'kw act = Act (act_class: action_class) (act_kwargs: 'kw)

datatype 'kw call = CallUndo "'kw act" | CallApply "'kw act"

type_synonym ref = nat

record 'kw command_log =
  lists :: "ref \<Rightarrow> 'kw act list list"
  undo_stack :: ref
  redo_stack :: ref
  page_undo_stack :: ref
  page_redo_stack :: ref
  calls :: "'kw call list"

text \<open>The \<open>if\<close>/\<open>elif\<close> chain of the handler \<open>action\<close>, in the order of the source.\<close>

definition action_class_of :: "string \<Rightarrow> action_class" where
  "action_class_of a =
     (if a = ''expand'' then ExpandCollapse True
      else if a = ''collapse'' then ExpandCollapse False
      else if a = ''create_graph'' then CreateGraph
      else if a = ''pos'' then Pos
      else if a = ''size'' then Size
      else if a = ''pos_size'' then PosSize
      else if a = ''feedforward_layout'' then FeedforwardLayout
      else if a = ''config'' then ConfigAction
      else Action)"

text \<open>\<open>self.undo_stack.append([act])\<close>, then \<open>del self.redo_stack[:]\<close>.\<close>

definition action :: "string \<Rightarrow> 'kw \<Rightarrow> 'kw command_log \<Rightarrow> 'kw command_log" where
  "action a kwargs s =
     (let act = Act (action_class_of a) kwargs;
          s1 = s\<lparr>lists := (lists s)(undo_stack s := lists s (undo_stack s) @ [[act]])\<rparr>;
          s2 = s1\<lparr>lists := (lists s1)(redo_stack s1 := [])\<rparr>
      in s2)"

text \<open>
  The loop \<open>for act in action: act.undo(); re.insert(0, act)\<close>: the trace grows at its
  end, the list \<open>re\<close> at its front.
\<close>

fun undo_loop :: "'kw act list \<Rightarrow> 'kw call list \<Rightarrow> 'kw act list \<Rightarrow> 'kw call list \<times> 'kw act list" where
  "undo_loop [] cs re = (cs, re)"
| "undo_loop (a # as) cs re = undo_loop as (cs @ [CallUndo a]) (a # re)"

fun redo_loop :: "'kw act list \<Rightarrow> 'kw call list \<Rightarrow> 'kw act list \<Rightarrow> 'kw call list \<times> 'kw act list" where
  "redo_loop [] cs un = (cs, un)"
| "redo_loop (a # as) cs un = redo_loop as (cs @ [CallApply a]) (a # un)"

text \<open>
  \<open>NetGraph.undo\<close>: an empty list is falsy, \<open>pop()\<close> takes the last element,
  \<open>append\<close> adds at the end.
\<close>

definition undo :: "'kw command_log \<Rightarrow> 'kw command_log" where
  "undo s =
     (let st = lists s (page_undo_stack s) in
      if st = [] then s
      else
        let group = last st;
            s1 = s\<lparr>lists := (lists s)(page_undo_stack s := butlast st)\<rparr>;
            (cs, re) = undo_loop group (calls s1) [];
            s2 = s1\<lparr>calls := cs\<rparr>
        in s2\<lparr>lists := (lists s2)(page_redo_stack s2 := lists s2 (page_redo_stack s2) @ [re])\<rparr>)"

definition redo :: "'kw command_log \<Rightarrow> 'kw command_log" where
  "redo s =
     (let st = lists s (page_redo_stack s) in
      if st = [] then s
      else
        let group = last st;
            s1 = s\<lparr>lists := (lists s)(page_redo_stack s := butlast st)\<rparr>;
            (cs, un) = redo_loop group (calls s1) [];
            s2 = s1\<lparr>calls := cs\<rparr>
        in s2\<lparr>lists := (lists s2)(page_undo_stack s2 := lists s2 (page_undo_stack s2) @ [un])\<rparr>)"

text \<open>The handler of \<open>netgraph.undo\<close>: the flag \<open>"1"\<close> undoes, anything else redoes.\<close>

definition undo_command :: "string \<Rightarrow> 'kw command_log \<Rightarrow> 'kw command_log" where
  "undo_command flag s = (if flag = ''1'' then undo s else redo s)"

text \<open>
  The session as \<open>NetGraph.__init__\<close> leaves it, with the page's stacks being the
  \<open>NetGraph\<close>'s own two lists (references 0 and 1).
\<close>

definition init_log :: "'kw command_log" where
  "init_log = \<lparr>lists = (\<lambda>_. []), undo_stack = 0, redo_stack = 1,
                page_undo_stack = 0, page_redo_stack = 1, calls = []\<rparr>"

text \<open>A log whose top undo group holds two different actions.\<close>

definition two_action_log :: "nat command_log" where
  "two_action_log = init_log\<lparr>lists := (\<lambda>_. [])(0 := [[Act Pos 1, Act Size 2]])\<rparr>"

text \<open>A log whose top redo group holds two different actions.\<close>

definition two_action_redo_log :: "nat command_log" where
  "two_action_redo_log = init_log\<lparr>lists := (\<lambda>_. [])(1 := [[Act Pos 1, Act Size 2]])\<rparr>"

section \<open>Model objects\<close>

text \<open>
  The values a script binds and the graph works on. Nengo objects compare by identity;
  the field \<open>oid\<close> stands for the identity of an object, so that two objects with
  different identities are different values. The output of a node is either absent
  (\<open>None\<close>) or an object, of which the code asks three things: whether it is an
  \<open>OverriddenOutput\<close> (and then whether its \<open>base_output\<close> is \<open>None\<close>),
  whether it is callable, and whether it has the attribute \<open>_nengo_html_\<close>.
\<close>

datatype output_obj =
    OverriddenOutput (base_output: "output_obj option") (is_callable: bool) (has_nengo_html: bool)
  | PlainOutput (is_callable: bool) (has_nengo_html: bool)

datatype obj =
    Node (oid: nat) (label: "string option") (node_output: "output_obj option") (size_out: int)
  | Ensemble (oid: nat) (label: "string option") (size_out: int) (n_neurons: int)
  | Network (oid: nat) (label: "string option") (ensembles: "obj list") (nodes: "obj list")
      (networks: "obj list") (connections: "obj list")
  | Connection (oid: nat) (label: "string option") (pre: obj) (post: obj)
  | Neurons (ensemble: obj)
  | LearningRule (connection: obj)
  | ObjView (obj: obj)
  | PyStr string
  | PyOther nat
  | PyNone

datatype py_error = KeyError | IndexError | AttributeError | TypeError | IOError

text \<open>
  A method that changes the session either returns a value or raises; both leave a
  session behind. Where a method can also run forever, its result is an \<open>option\<close> of
  this, and \<open>None\<close> stands for not returning.
\<close>

datatype ('a, 's) res = Returns 'a 's | Raises py_error 's

text \<open>
  The properties \<open>pre_obj\<close> and \<open>post_obj\<close> of a nengo connection: the object behind
  a view, or the endpoint itself. Reading them from anything but a connection raises.
\<close>

definition unview :: "obj \<Rightarrow> obj" where
  "unview x = (case x of ObjView y \<Rightarrow> y | _ \<Rightarrow> x)"

definition pre_obj :: "obj \<Rightarrow> py_error + obj" where
  "pre_obj c = (case c of Connection _ _ p _ \<Rightarrow> Inr (unview p) | _ \<Rightarrow> Inl AttributeError)"

definition post_obj :: "obj \<Rightarrow> py_error + obj" where
  "post_obj c = (case c of Connection _ _ _ q \<Rightarrow> Inr (unview q) | _ \<Rightarrow> Inl AttributeError)"

text \<open>The attribute \<open>label\<close>, which the four nengo classes of the graph have.\<close>

definition get_label :: "obj \<Rightarrow> py_error + string option" where
  "get_label x =
     (case x of
        Node _ l _ _ \<Rightarrow> Inr l
      | Ensemble _ l _ _ \<Rightarrow> Inr l
      | Network _ l _ _ _ _ \<Rightarrow> Inr l
      | Connection _ l _ _ \<Rightarrow> Inr l
      | _ \<Rightarrow> Inl AttributeError)"

section \<open>What the file takes from outside\<close>

text \<open>
  Functions the file calls and does not define are parameters of the model:
  \<^item> \<open>py_eval\<close>: Python's \<open>eval\<close> of a uid in a dictionary of bindings, \<open>None\<close> when
    it raises;
  \<^item> \<open>names_uid\<close>: \<open>self.page.names.uid(obj, names=...)\<close>, the uid of an object under
    a table of names (the page's own table when \<open>names\<close> is not given);
  \<^item> \<open>default_output\<close>: \<open>Value.default_output\<close>, with \<open>PyNone\<close> for \<open>None\<close>;
  \<^item> \<open>applicable_targets\<close>: \<open>SpaPlot.applicable_targets\<close>;
  \<^item> \<open>run_script\<close>: compiling and executing the script text in the execution
    environment, from the initial bindings; it gives how the execution ended, the
    bindings it left and the text of \<open>env.stdout\<close> that \<open>execute\<close> returns (the
    warning that \<open>execute\<close> writes there for a started simulator or GUI included);
  \<^item> \<open>open_read\<close>: opening and reading the watched file.
\<close>

datatype exec_outcome =
    Finished
  | StartedSimulatorException int
  | StartedGUIException int
  | Exception string int

record ext =
  py_eval :: "string \<Rightarrow> (string \<rightharpoonup> obj) \<Rightarrow> obj option"
  names_uid :: "(obj \<rightharpoonup> string) \<Rightarrow> obj \<Rightarrow> string"
  default_output :: "obj \<Rightarrow> obj"
  applicable_targets :: "obj \<Rightarrow> string list"
  run_script :: "string option \<Rightarrow> string \<Rightarrow> (string \<rightharpoonup> obj)
                   \<Rightarrow> exec_outcome \<times> (string \<rightharpoonup> obj) \<times> string"
  open_read :: "string option \<Rightarrow> py_error + string"

section \<open>\<open>NetGraph.get_extra_info\<close>\<close>

text \<open>
  The dictionary \<open>info\<close> has at most the six keys below; a key that is not set is
  \<open>None\<close> here. Two such dictionaries are equal in Python exactly when they have the
  same keys with equal values.
\<close>

record extra_info =
  info_passthrough :: "bool option"
  info_html :: "bool option"
  info_dimensions :: "int option"
  info_n_neurons :: "int option"
  info_default_output :: "bool option"
  info_sp_targets :: "string list option"

definition empty_info :: extra_info where
  "empty_info = \<lparr>info_passthrough = None, info_html = None, info_dimensions = None,
                  info_n_neurons = None, info_default_output = None, info_sp_targets = None\<rparr>"

text \<open>
  \<open>obj.output is None or (isinstance(obj.output, OverriddenOutput) and
  obj.output.base_output is None)\<close>
\<close>

definition no_output :: "output_obj option \<Rightarrow> bool" where
  "no_output out =
     (case out of
        None \<Rightarrow> True
      | Some (OverriddenOutput b _ _) \<Rightarrow> b = None
      | Some (PlainOutput _ _) \<Rightarrow> False)"

text \<open>\<open>callable(obj.output) and hasattr(obj.output, '_nengo_html_')\<close>; \<open>None\<close> is
  not callable.\<close>

definition html_output :: "output_obj option \<Rightarrow> bool" where
  "html_output out = (case out of None \<Rightarrow> False | Some x \<Rightarrow> is_callable x \<and> has_nengo_html x)"

definition get_extra_info :: "ext \<Rightarrow> obj \<Rightarrow> extra_info" where
  "get_extra_info x ob =
     (let info =
        (case ob of
           Node _ _ out d \<Rightarrow>
             (let i1 = (if no_output out then empty_info\<lparr>info_passthrough := Some True\<rparr>
                        else empty_info);
                  i2 = (if html_output out then i1\<lparr>info_html := Some True\<rparr> else i1)
              in i2\<lparr>info_dimensions := Some d\<rparr>)
         | Ensemble _ _ d n \<Rightarrow>
             empty_info\<lparr>info_dimensions := Some d, info_n_neurons := Some n\<rparr>
         | _ \<Rightarrow>
             (if default_output x ob \<noteq> PyNone then empty_info\<lparr>info_default_output := Some True\<rparr>
              else empty_info))
      in info\<lparr>info_sp_targets := Some (applicable_targets x ob)\<rparr>)"

section \<open>\<open>NameFinder\<close>\<close>

text \<open>
  A name finder holds the dictionary \<open>names\<close> from objects to names. \<open>_reload\<close>
  also reads the attribute \<open>known_name\<close> of the new name finder, which the class never
  binds; it is a second table of the record. \<open>__getitem__\<close> is \<open>self.names[obj]\<close>
  and raises \<open>KeyError\<close> for an object without a name.
\<close>

record name_finder =
  names :: "obj \<rightharpoonup> string"
  known_name :: "obj \<rightharpoonup> string"

definition getitem :: "name_finder \<Rightarrow> obj \<Rightarrow> py_error + string" where
  "getitem nf ob = (case names nf ob of None \<Rightarrow> Inl KeyError | Some n \<Rightarrow> Inr n)"

text \<open>\<open>label.rsplit('.', 1)[1]\<close> for a label that contains a dot: what follows the last dot.\<close>

definition after_last_dot :: "string \<Rightarrow> string" where
  "after_last_dot s = rev (takeWhile (\<lambda>c. c \<noteq> CHR ''.'') (rev s))"

text \<open>\<open>NameFinder.label\<close>, on the table of names of the name finder.\<close>

definition label_of :: "(obj \<rightharpoonup> string) \<Rightarrow> obj \<Rightarrow> py_error + string" where
  "label_of tbl ob =
     (case get_label ob of
        Inl e \<Rightarrow> Inl e
      | Inr (Some l) \<Rightarrow> Inr l
      | Inr None \<Rightarrow>
          (case tbl ob of
             None \<Rightarrow> Inl KeyError
           | Some n \<Rightarrow> Inr (if CHR ''.'' \<in> set n then after_last_dot n else n)))"

section \<open>The session\<close>

text \<open>
  The attributes of the \<open>NetGraph\<close> and of its page that the modelled methods read or
  write. The file binds neither \<open>self.page\<close> nor \<open>self.to_be_sent\<close>; both are part of
  the given session. Of the page:
  \<^item> \<open>page_names\<close> is the table of names behind \<open>self.page.names\<close>;
  \<^item> \<open>page_config\<close> is \<open>self.page.config\<close>, indexed by object;
  \<^item> \<open>page_save_needed\<close> is the flag that \<open>modified_config\<close> sets (as
    \<open>PageConfig.modified\<close> does);
  \<^item> \<open>page_code\<close>, \<open>page_locals\<close>, \<open>page_last_good_locals\<close>, \<open>page_obj\<close> and
    \<open>page_filename\<close> are the attributes of \<open>PageNetwork\<close>, whose \<open>execute\<close> is the
    only \<open>execute\<close> of the file and is what \<open>self.page.execute\<close> stands for;
    \<open>self.page.model\<close> is \<open>page_obj\<close>;
  \<^item> \<open>page_stderr\<close> lists the \<open>error.stderr\<close> messages that \<open>_set_error\<close> dispatches to
    the attached client, and \<open>page_error\<close>, which \<open>_reload\<close> reads as
    \<open>self.page.error\<close>, is the output of the last of them;
  \<^item> \<open>page_editor_code\<close> is the text last handed to \<open>self.page.editor.update_code\<close>;
  \<^item> \<open>page_components\<close> is \<open>self.page.components\<close>.
  \<open>client_text\<close> lists what \<open>create_object\<close> and \<open>create_connection\<close> write to the
  client, as the dictionaries they serialise.
\<close>

record item_config =
  pos :: "(real \<times> real) option"
  size_of :: "(real \<times> real) option"
  expanded :: bool
  has_layout :: bool

datatype event =
    Remove string
  | Rename string string
  | Reconnect string "string list" "string list"
  | DeleteGraph string bool
  | Js string

record create_info =
  c_uid :: string
  c_label :: string
  c_pos :: "real \<times> real"
  c_type :: string
  c_size :: "real \<times> real"
  c_parent :: "string option"
  c_expanded :: "bool option"
  c_extra :: extra_info

datatype client_msg =
    ObjectInfo create_info
  | ConnInfo string "string list" "string list" "string option"

record netgraph =
  uids :: "(string \<times> obj) list"
  parents :: "string \<rightharpoonup> string"
  networks_to_search :: "obj list"
  to_be_expanded :: "obj list"
  to_be_sent :: "event list"
  client_text :: "client_msg list"
  page_names :: "obj \<rightharpoonup> string"
  page_config :: "obj \<Rightarrow> item_config"
  page_save_needed :: bool
  page_code :: "string option"
  page_locals :: "(string \<rightharpoonup> obj) option"
  page_last_good_locals :: "(string \<rightharpoonup> obj) option"
  page_obj :: obj
  page_filename :: "string option"
  page_error :: "string option"
  page_stderr :: "(string option \<times> int option) list"
  page_editor_code :: "string option"
  page_components :: "obj list"

text \<open>\<open>uid in self.uids\<close>; the dictionary keeps its keys in insertion order.\<close>

definition known :: "netgraph \<Rightarrow> string \<Rightarrow> bool" where
  "known s uid \<longleftrightarrow> map_of (uids s) uid \<noteq> None"

section \<open>\<open>NetGraph.act_expand\<close>\<close>

text \<open>
  \<open>net = self.uids[uid]\<close> raises \<open>KeyError\<close> for a uid that is not a key; it is the
  first statement, so nothing has been written then.
\<close>

definition act_expand :: "string \<Rightarrow> netgraph \<Rightarrow> (unit, netgraph) res" where
  "act_expand uid s =
     (case map_of (uids s) uid of
        None \<Rightarrow> Raises KeyError s
      | Some net \<Rightarrow>
          Returns ()
            (s\<lparr>to_be_expanded := to_be_expanded s @ [net],
               page_config := (page_config s)(net := (page_config s net)\<lparr>expanded := True\<rparr>),
               page_save_needed := True\<rparr>))"

section \<open>\<open>NetGraph.get_parents\<close>\<close>

text \<open>
  The first loop pops networks off \<open>networks_to_search\<close> until the uid has a parent:
  it enters the nodes, then the ensembles, then the networks of the popped network into
  \<open>parents\<close> and queues its networks. \<open>pop(0)\<close> on the empty list raises
  \<open>IndexError\<close>; reading \<open>nodes\<close> from something that is not a network raises
  \<open>AttributeError\<close>, after the pop.
\<close>

definition enter_children :: "ext \<Rightarrow> (obj \<rightharpoonup> string) \<Rightarrow> string \<Rightarrow> obj list
    \<Rightarrow> (string \<rightharpoonup> string) \<Rightarrow> (string \<rightharpoonup> string)" where
  "enter_children x tbl net_uid children P =
     fold (\<lambda>c P'. P'(names_uid x tbl c \<mapsto> net_uid)) children P"

lemma sum_list_size_le: "sum_list (map f xs) \<le> size_list f xs"
  by (induction xs) auto

function search_networks :: "ext \<Rightarrow> (obj \<rightharpoonup> string) \<Rightarrow> string \<Rightarrow> (string \<rightharpoonup> string)
    \<Rightarrow> obj list \<Rightarrow> (py_error option \<times> (string \<rightharpoonup> string) \<times> obj list)" where
  "search_networks x tbl uid P Q =
     (if P uid \<noteq> None then (None, P, Q)
      else
        (case Q of
           [] \<Rightarrow> (Some IndexError, P, [])
         | net # rest \<Rightarrow>
             (case net of
                Network _ _ es ns nets _ \<Rightarrow>
                  (let net_uid = names_uid x tbl net;
                       P1 = enter_children x tbl net_uid ns P;
                       P2 = enter_children x tbl net_uid es P1;
                       P3 = enter_children x tbl net_uid nets P2
                   in search_networks x tbl uid P3 (rest @ nets))
              | _ \<Rightarrow> (Some AttributeError, P, rest))))"
  by pat_completeness auto
termination
proof (relation "measure (\<lambda>(x, tbl, uid, P, Q). sum_list (map size Q))")
  show "wf (measure (\<lambda>(x, tbl, uid, P, Q). sum_list (map size Q)))"
    by simp
next
  fix x :: ext and tbl :: "obj \<rightharpoonup> string" and uid :: string and P :: "string \<rightharpoonup> string"
    and Q :: "obj list" and net rest i l es ns nets cs net_uid P1 P2 P3
  assume "Q = net # rest" and "net = Network i l es ns nets cs"
  moreover have "sum_list (map size nets) \<le> size_list size nets"
    by (rule sum_list_size_le)
  ultimately show "((x, tbl, uid, P3, rest @ nets), (x, tbl, uid, P, Q))
      \<in> measure (\<lambda>(x, tbl, uid, P, Q). sum_list (map size Q))"
    by simp
qed

text \<open>
  The second loop follows \<open>parents\<close> from the uid upwards. It does not end when the
  map leads back to a uid of the chain, so it is a partial function: \<open>None\<close> is not
  returning.
\<close>

partial_function (option) parent_chain :: "(string \<rightharpoonup> string) \<Rightarrow> string list \<Rightarrow> string list option" where
  "parent_chain P ps =
     (case P (last ps) of
        None \<Rightarrow> Some ps
      | Some p \<Rightarrow> parent_chain P (ps @ [p]))"

definition get_parents :: "ext \<Rightarrow> (obj \<rightharpoonup> string) \<Rightarrow> string \<Rightarrow> netgraph
    \<Rightarrow> (string list, netgraph) res option" where
  "get_parents x tbl uid s =
     (case search_networks x tbl uid (parents s) (networks_to_search s) of
        (Some e, P, Q) \<Rightarrow> Some (Raises e (s\<lparr>parents := P, networks_to_search := Q\<rparr>))
      | (None, P, Q) \<Rightarrow>
          (case parent_chain P [uid] of
             None \<Rightarrow> None
           | Some ps \<Rightarrow> Some (Returns ps (s\<lparr>parents := P, networks_to_search := Q\<rparr>))))"

section \<open>\<open>NetGraph.create_object\<close> and \<open>NetGraph.create_connection\<close>\<close>

text \<open>
  The position and the size of an object are taken from its configuration and entered
  there when they are missing: the position as the pair \<open>rnd\<close> that the two calls of
  \<open>random.uniform(0, 1)\<close> give, the size as \<open>(0.1, 0.1)\<close>.
\<close>

definition config_pos :: "real \<times> real \<Rightarrow> obj \<Rightarrow> netgraph \<Rightarrow> (real \<times> real) \<times> netgraph" where
  "config_pos rnd ob s =
     (case pos (page_config s ob) of
        None \<Rightarrow> (rnd, s\<lparr>page_config := (page_config s)(ob := (page_config s ob)\<lparr>pos := Some rnd\<rparr>)\<rparr>)
      | Some p \<Rightarrow> (p, s))"

definition config_size :: "obj \<Rightarrow> netgraph \<Rightarrow> (real \<times> real) \<times> netgraph" where
  "config_size ob s =
     (case size_of (page_config s ob) of
        None \<Rightarrow> ((1 / 10, 1 / 10),
                  s\<lparr>page_config := (page_config s)(ob := (page_config s ob)\<lparr>size_of := Some (1 / 10, 1 / 10)\<rparr>)\<rparr>)
      | Some sz \<Rightarrow> (sz, s))"

definition create_object :: "ext \<Rightarrow> real \<times> real \<Rightarrow> obj \<Rightarrow> string \<Rightarrow> string option \<Rightarrow> netgraph
    \<Rightarrow> (unit, netgraph) res" where
  "create_object x rnd ob type parent s =
     (let uid = names_uid x (page_names s) ob in
      if known s uid then Returns () s
      else
        let (p, s1) = config_pos rnd ob s;
            (sz, s2) = config_size ob s1
        in
          (case label_of (page_names s2) ob of
             Inl e \<Rightarrow> Raises e s2
           | Inr lbl \<Rightarrow>
               (let s3 = s2\<lparr>uids := AList.update uid ob (uids s2)\<rparr>;
                    info = \<lparr>c_uid = uid, c_label = lbl, c_pos = p, c_type = type, c_size = sz,
                            c_parent = parent,
                            c_expanded = (if type = ''net'' then Some (expanded (page_config s3 ob))
                                          else None),
                            c_extra = get_extra_info x ob\<rparr>
                in Returns () (s3\<lparr>client_text := client_text s3 @ [ObjectInfo info]\<rparr>))))"

text \<open>
  The endpoints of \<open>create_connection\<close>: a \<open>Neurons\<close> handle gives its ensemble; a
  \<open>LearningRule\<close> gives the attribute \<open>post\<close> of its connection, without a view
  around it.
\<close>

definition of_neurons :: "obj \<Rightarrow> obj" where
  "of_neurons p = (case p of Neurons e \<Rightarrow> e | _ \<Rightarrow> p)"

definition create_post :: "obj \<Rightarrow> py_error + obj" where
  "create_post q =
     (case q of
        LearningRule c \<Rightarrow>
          (case c of
             Connection _ _ _ q' \<Rightarrow> Inr (of_neurons (unview q'))
           | _ \<Rightarrow> Inl AttributeError)
      | _ \<Rightarrow> Inr (of_neurons q))"

definition create_connection :: "ext \<Rightarrow> obj \<Rightarrow> string option \<Rightarrow> netgraph
    \<Rightarrow> (unit, netgraph) res option" where
  "create_connection x conn parent s =
     (let uid = names_uid x (page_names s) conn in
      if known s uid then Some (Returns () s)
      else
        (case pre_obj conn of
           Inl e \<Rightarrow> Some (Raises e s)
         | Inr p \<Rightarrow>
             (case post_obj conn of
                Inl e \<Rightarrow> Some (Raises e s)
              | Inr q \<Rightarrow>
                  (case create_post q of
                     Inl e \<Rightarrow> Some (Raises e s)
                   | Inr q' \<Rightarrow>
                       (let pre_uid = names_uid x (page_names s) (of_neurons p);
                            post_uid = names_uid x (page_names s) q';
                            s1 = s\<lparr>uids := AList.update uid conn (uids s)\<rparr>
                        in
                          (case get_parents x (page_names s1) pre_uid s1 of
                             None \<Rightarrow> None
                           | Some (Raises e s2) \<Rightarrow> Some (Raises e s2)
                           | Some (Returns pres s2) \<Rightarrow>
                               (case get_parents x (page_names s2) post_uid s2 of
                                  None \<Rightarrow> None
                                | Some (Raises e s3) \<Rightarrow> Some (Raises e s3)
                                | Some (Returns posts s3) \<Rightarrow>
                                    Some (Returns ()
                                      (s3\<lparr>client_text := client_text s3
                                           @ [ConnInfo uid (butlast pres) (butlast posts) parent]\<rparr>)))))))))"

text \<open>The session a call leaves, and whether the call returned.\<close>

definition res_state :: "('a, 's) res \<Rightarrow> 's" where
  "res_state r = (case r of Returns v s \<Rightarrow> s | Raises e s \<Rightarrow> s)"

definition returned :: "('a, 's) res \<Rightarrow> bool" where
  "returned r = (case r of Returns v s \<Rightarrow> True | Raises e s \<Rightarrow> False)"


section \<open>\<open>PageNetwork.execute\<close>\<close>

text \<open>
  Modelled from the spec: the error channel of the page. \<open>_set_error(output, line)\<close>
  of an attached page dispatches \<open>error.stderr\<close> to the client; what receives it is
  not part of the sources. The error that \<open>_reload\<close> reads as \<open>self.page.error\<close> is
  taken to be the output of the last dispatch: \<open>None\<close> after the dispatch that opens
  an execution, the report after an error was reported.
\<close>

definition set_error :: "string option \<Rightarrow> int option \<Rightarrow> netgraph \<Rightarrow> netgraph" where
  "set_error out line s = s\<lparr>page_error := out, page_stderr := page_stderr s @ [(out, line)]\<rparr>"

text \<open>The message for a script that binds no network \<open>model\<close>.\<close>

definition must_declare :: string where
  "must_declare = ''Must declare a nengo.Network called '' @ [CHR 0x22] @ ''model'' @ [CHR 0x22]"

text \<open>\<open>len(code.split('\n'))\<close>: one more than the number of newlines.\<close>

definition count_lines :: "string \<Rightarrow> int" where
  "count_lines code = int (length (filter (\<lambda>c. c = CHR 0x0A) code)) + 1"

text \<open>\<open>{'__file__': self.filename}\<close>\<close>

definition initial_locals :: "string option \<Rightarrow> (string \<rightharpoonup> obj)" where
  "initial_locals fn = [''__file__'' \<mapsto> (case fn of None \<Rightarrow> PyNone | Some f \<Rightarrow> PyStr f)]"

text \<open>
  Only the last \<open>except\<close> clause sets \<open>errored\<close>; a started simulator or a started GUI
  is a warning on the standard output.
\<close>

definition exec_errored :: "exec_outcome \<Rightarrow> bool" where
  "exec_errored oc = (case oc of Exception _ _ \<Rightarrow> True | _ \<Rightarrow> False)"

definition execute :: "ext \<Rightarrow> string \<Rightarrow> netgraph \<Rightarrow> string \<times> netgraph" where
  "execute x code s =
     (let s1 = s\<lparr>page_locals := Some (initial_locals (page_filename s)), page_code := Some code\<rparr>;
          s2 = set_error None None s1;
          (oc, locs, stdout) = run_script x (page_filename s2) code (initial_locals (page_filename s));
          s3 = s2\<lparr>page_locals := Some locs\<rparr>;
          s4 = (case oc of Exception tb line \<Rightarrow> set_error (Some tb) (Some line) s3 | _ \<Rightarrow> s3);
          errored = exec_errored oc;
          model = (case locs ''model'' of None \<Rightarrow> PyNone | Some v \<Rightarrow> v);
          s5 = s4\<lparr>page_obj := model\<rparr>;
          (errored', s6) =
            (if \<not> is_Network model then
               (True,
                (if \<not> errored then set_error (Some must_declare) (Some (count_lines code)) s5
                 else s5)\<lparr>page_obj := PyNone\<rparr>)
             else (errored, s5));
          s7 = (if \<not> errored' then s6\<lparr>page_last_good_locals := page_locals s6\<rparr> else s6)
      in (stdout, s7))"

section \<open>\<open>NetGraph._reload\<close>: up to the reconciliation\<close>

text \<open>
  Lines 503-520 of \<open>_reload\<close>. The method either returns there, or raises (when the
  file cannot be read), or goes on to the reconciliation with the executed code and the
  bindings of the last good run. What follows the loop over the uids (lines 585-703:
  queueing the root, reloading the configuration, synchronising the components) is not
  modelled.
\<close>

datatype reload_step =
    Returned netgraph
  | Raised py_error netgraph
  | Reconcile string "(string \<rightharpoonup> obj) option" netgraph

definition reload_execute :: "ext \<Rightarrow> string \<Rightarrow> (string \<rightharpoonup> obj) option \<Rightarrow> netgraph \<Rightarrow> reload_step" where
  "reload_execute x code old_locals s =
     (let (stdout, s1) = execute x code s in
      if page_error s1 \<noteq> None then Returned s1 else Reconcile code old_locals s1)"

definition reload_begin :: "ext \<Rightarrow> string option \<Rightarrow> netgraph \<Rightarrow> reload_step" where
  "reload_begin x code_arg s =
     (let old_locals = page_last_good_locals s in
      case code_arg of
        None \<Rightarrow>
          (case open_read x (page_filename s) of
             Inl e \<Rightarrow> Raised e s
           | Inr code \<Rightarrow>
               if page_code s = Some code then Returned s
               else reload_execute x code old_locals (s\<lparr>page_editor_code := Some code\<rparr>))
      | Some code \<Rightarrow> reload_execute x code old_locals s)"

section \<open>\<open>NetGraph._reload_update_item\<close>\<close>

text \<open>
  The endpoints that are compared for a connection: \<open>pre_obj\<close> with a \<open>Neurons\<close>
  handle replaced by its ensemble; \<open>post_obj\<close> with a \<open>LearningRule\<close> replaced by the
  \<open>post_obj\<close> of its connection, and then a \<open>Neurons\<close> handle replaced by its
  ensemble. The reads raise the same error and write nothing, so their order among
  themselves does not show.
\<close>

definition reload_post :: "obj \<Rightarrow> py_error + obj" where
  "reload_post q =
     (case q of
        LearningRule c \<Rightarrow> (case post_obj c of Inl e \<Rightarrow> Inl e | Inr q' \<Rightarrow> Inr (of_neurons q'))
      | _ \<Rightarrow> Inr (of_neurons q))"

definition endpoints :: "obj \<Rightarrow> py_error + obj \<times> obj" where
  "endpoints c =
     (case pre_obj c of
        Inl e \<Rightarrow> Inl e
      | Inr p \<Rightarrow>
          (case post_obj c of
             Inl e \<Rightarrow> Inl e
           | Inr q \<Rightarrow>
               (case reload_post q of
                  Inl e \<Rightarrow> Inl e
                | Inr q' \<Rightarrow> Inr (of_neurons p, q'))))"

text \<open>The branch for nodes, ensembles and networks.\<close>

definition update_labelled :: "string \<Rightarrow> obj \<Rightarrow> obj \<Rightarrow> name_finder \<Rightarrow> netgraph \<Rightarrow> (bool, netgraph) res" where
  "update_labelled uid old_item new_item nf s =
     (case label_of (page_names s) old_item of
        Inl e \<Rightarrow> Raises e s
      | Inr old_label \<Rightarrow>
          (case label_of (names nf) new_item of
             Inl e \<Rightarrow> Raises e s
           | Inr new_label \<Rightarrow>
               (let (changed, s1) =
                      (if old_label \<noteq> new_label
                       then (True, s\<lparr>to_be_sent := to_be_sent s @ [Rename uid new_label]\<rparr>)
                       else (False, s))
                in if is_Network old_item \<and> expanded (page_config s1 old_item)
                   then Returns True (s1\<lparr>to_be_expanded := to_be_expanded s1 @ [new_item]\<rparr>)
                   else Returns changed s1)))"

text \<open>The branch for connections.\<close>

definition update_connection :: "ext \<Rightarrow> string \<Rightarrow> obj \<Rightarrow> obj \<Rightarrow> name_finder \<Rightarrow> netgraph
    \<Rightarrow> (bool, netgraph) res option" where
  "update_connection x uid old_item new_item nf s =
     (case endpoints old_item of
        Inl e \<Rightarrow> Some (Raises e s)
      | Inr (old_pre, old_post) \<Rightarrow>
          (case endpoints new_item of
             Inl e \<Rightarrow> Some (Raises e s)
           | Inr (new_pre, new_post) \<Rightarrow>
               (let old_pre_uid = names_uid x (page_names s) old_pre;
                    old_post_uid = names_uid x (page_names s) old_post;
                    new_pre_uid = names_uid x (names nf) new_pre;
                    new_post_uid = names_uid x (names nf) new_post
                in
                  if new_pre_uid \<noteq> old_pre_uid \<or> new_post_uid \<noteq> old_post_uid then
                    (case get_parents x (known_name nf) new_pre_uid s of
                       None \<Rightarrow> None
                     | Some (Raises e s1) \<Rightarrow> Some (Raises e s1)
                     | Some (Returns pres s1) \<Rightarrow>
                         (case get_parents x (known_name nf) new_post_uid s1 of
                            None \<Rightarrow> None
                          | Some (Raises e s2) \<Rightarrow> Some (Raises e s2)
                          | Some (Returns posts s2) \<Rightarrow>
                              Some (Returns True
                                (s2\<lparr>to_be_sent := to_be_sent s2
                                     @ [Reconnect uid (butlast pres) (butlast posts)]\<rparr>))))
                  else Some (Returns False s))))"

definition reload_update_item :: "ext \<Rightarrow> string \<Rightarrow> obj \<Rightarrow> obj \<Rightarrow> name_finder \<Rightarrow> netgraph
    \<Rightarrow> (bool, netgraph) res option" where
  "reload_update_item x uid old_item new_item nf s =
     (if is_Node old_item \<or> is_Ensemble old_item \<or> is_Network old_item
      then Some (update_labelled uid old_item new_item nf s)
      else if is_Connection old_item then update_connection x uid old_item new_item nf s
      else Some (Returns False s))"

section \<open>\<open>NetGraph._reload\<close>: the loop over the uids\<close>

text \<open>
  Lines 527-583. The new name finder is an argument of the model, with any two tables:
  line 522 builds it as \<open>NameFinder(self.page.locals, self.page.model)\<close>, which is
  not how the constructor of the class in this file is called, so the model does not
  say what the tables hold. The local variables \<open>removed_uids\<close> and
  \<open>rebuilt_objects\<close> are the value the loop returns.
\<close>

record reload_vars =
  removed_uids :: "(obj \<times> string) list"
  rebuilt_objects :: "string list"

text \<open>\<open>eval(uid, self.page.locals)\<close> under \<open>try\<close>: every failure gives \<open>None\<close>.\<close>

definition eval_uid :: "ext \<Rightarrow> string \<Rightarrow> netgraph \<Rightarrow> obj" where
  "eval_uid x uid s =
     (case page_locals s of
        None \<Rightarrow> PyNone
      | Some locs \<Rightarrow> (case py_eval x uid locs of None \<Rightarrow> PyNone | Some v \<Rightarrow> v))"

text \<open>The classes are tried in the order of the source.\<close>

definition same_class :: "obj \<Rightarrow> obj \<Rightarrow> bool" where
  "same_class new_item old_item \<longleftrightarrow>
     (is_Ensemble new_item \<and> is_Ensemble old_item)
     \<or> (is_Node new_item \<and> is_Node old_item)
     \<or> (is_Network new_item \<and> is_Network old_item)
     \<or> (is_Connection new_item \<and> is_Connection old_item)"

definition keep_object :: "ext \<Rightarrow> obj \<Rightarrow> obj \<Rightarrow> bool" where
  "keep_object x new_item old_item =
     (if new_item = PyNone then False
      else if \<not> same_class new_item old_item then False
      else if get_extra_info x new_item \<noteq> get_extra_info x old_item then False
      else True)"

definition reload_item :: "ext \<Rightarrow> name_finder \<Rightarrow> string \<Rightarrow> obj \<Rightarrow> reload_vars \<Rightarrow> netgraph
    \<Rightarrow> (reload_vars, netgraph) res option" where
  "reload_item x nf uid old_item vars s =
     (let evaluated = eval_uid x uid s in
      case getitem nf evaluated of
        Inl e \<Rightarrow> Some (Raises e s)
      | Inr new_uid \<Rightarrow>
          (let new_item = (if new_uid \<noteq> uid then PyNone else evaluated) in
           if \<not> keep_object x new_item old_item then
             (let s1 = s\<lparr>to_be_sent := to_be_sent s @ [Remove uid]\<rparr> in
              if \<not> known s1 uid then Some (Raises KeyError s1)
              else
                Some (Returns
                  (vars\<lparr>removed_uids := AList.update old_item uid (removed_uids vars),
                        rebuilt_objects := rebuilt_objects vars @ [uid]\<rparr>)
                  (s1\<lparr>uids := AList.delete uid (uids s1)\<rparr>)))
           else
             (case reload_update_item x uid old_item new_item nf s of
                None \<Rightarrow> None
              | Some (Raises e s1) \<Rightarrow> Some (Raises e s1)
              | Some (Returns changed s1) \<Rightarrow>
                  Some (Returns
                    (if changed then vars\<lparr>rebuilt_objects := rebuilt_objects vars @ [uid]\<rparr> else vars)
                    (s1\<lparr>uids := AList.update uid new_item (uids s1)\<rparr>)))))"

fun reload_uids :: "ext \<Rightarrow> name_finder \<Rightarrow> (string \<times> obj) list \<Rightarrow> reload_vars \<Rightarrow> netgraph
    \<Rightarrow> (reload_vars, netgraph) res option" where
  "reload_uids x nf [] vars s = Some (Returns vars s)"
| "reload_uids x nf ((uid, old_item) # items) vars s =
     (case reload_item x nf uid old_item vars s of
        None \<Rightarrow> None
      | Some (Raises e s1) \<Rightarrow> Some (Raises e s1)
      | Some (Returns vars1 s1) \<Rightarrow> reload_uids x nf items vars1 s1)"

text \<open>
  Lines 522-583 but for the construction of the name finder: the search starts anew
  from the model, and the loop runs over a copy of the snapshot.
\<close>

definition reconcile :: "ext \<Rightarrow> name_finder \<Rightarrow> netgraph \<Rightarrow> (reload_vars, netgraph) res option" where
  "reconcile x nf s =
     reload_uids x nf (uids s) \<lparr>removed_uids = [], rebuilt_objects = []\<rparr>
       (s\<lparr>networks_to_search := [page_obj s], parents := Map.empty\<rparr>)"

section \<open>Notions for the properties of a reload\<close>

text \<open>The session a step of \<open>_reload\<close> leaves.\<close>

definition step_session :: "reload_step \<Rightarrow> netgraph" where
  "step_session r = (case r of Returned s \<Rightarrow> s | Raised e s \<Rightarrow> s | Reconcile c l s \<Rightarrow> s)"

text \<open>
  The script fails: its execution raises an exception (other than the two that are
  only warned about), or it leaves no network bound to \<open>model\<close>.
\<close>

definition script_fails :: "ext \<Rightarrow> string \<Rightarrow> netgraph \<Rightarrow> bool" where
  "script_fails x code s =
     (case run_script x (page_filename s) code (initial_locals (page_filename s)) of
        (oc, locs, stdout) \<Rightarrow>
          exec_errored oc \<or> \<not> is_Network (case locs ''model'' of None \<Rightarrow> PyNone | Some v \<Rightarrow> v))"




section \<open>Concrete sessions\<close>

text \<open>
  A small model: the network \<open>model\<close> with the ensemble \<open>a\<close> (three neurons), the
  node \<open>b\<close> and a connection from \<open>a\<close> to \<open>b\<close>.
\<close>

definition ens_a :: obj where
  "ens_a = Ensemble 1 None 1 3"

definition node_b :: obj where
  "node_b = Node 2 None None 1"

definition conn_ab :: obj where
  "conn_ab = Connection 3 None ens_a node_b"

definition model_ab :: obj where
  "model_ab = Network 0 None [ens_a] [node_b] [] [conn_ab]"

definition names_ab :: "obj \<rightharpoonup> string" where
  "names_ab = [model_ab \<mapsto> ''model'', ens_a \<mapsto> ''a'', node_b \<mapsto> ''b'',
               conn_ab \<mapsto> ''model.connections[0]'']"

text \<open>
  Stand-ins for what comes from outside: \<open>eval\<close> of a uid that is a bound name, the
  uid of an object as its name in the table, a script run that leaves the bindings
  \<open>locs\<close> and ends as \<open>oc\<close>, and a watched file with the text \<open>file\<close>.
\<close>

definition example_ext :: "exec_outcome \<Rightarrow> (string \<rightharpoonup> obj) \<Rightarrow> string \<Rightarrow> ext" where
  "example_ext oc locs file =
     \<lparr>py_eval = (\<lambda>uid l. l uid),
      names_uid = (\<lambda>tbl ob. case tbl ob of None \<Rightarrow> ''?'' | Some n \<Rightarrow> n),
      default_output = (\<lambda>ob. ob),
      applicable_targets = (\<lambda>_. []),
      run_script = (\<lambda>fn code l. (oc, locs, [])),
      open_read = (\<lambda>fn. Inr file)\<rparr>"

definition default_config :: item_config where
  "default_config = \<lparr>pos = None, size_of = None, expanded = False, has_layout = False\<rparr>"

text \<open>
  The session before anything is shown, and the session showing \<open>a\<close>, \<open>b\<close> and
  their connection.
\<close>

definition empty_session :: netgraph where
  "empty_session =
     \<lparr>uids = [], parents = Map.empty, networks_to_search = [], to_be_expanded = [],
      to_be_sent = [], client_text = [], page_names = Map.empty,
      page_config = (\<lambda>_. default_config), page_save_needed = False, page_code = None,
      page_locals = None, page_last_good_locals = None, page_obj = PyNone,
      page_filename = None, page_error = None, page_stderr = [], page_editor_code = None,
      page_components = []\<rparr>"

definition session_ab :: netgraph where
  "session_ab =
     empty_session\<lparr>uids := [(''a'', ens_a), (''b'', node_b), (''model.connections[0]'', conn_ab)],
       page_names := names_ab, page_code := Some ''model = ...'',
       page_locals := Some [''model'' \<mapsto> model_ab, ''a'' \<mapsto> ens_a, ''b'' \<mapsto> node_b],
       page_last_good_locals := Some [''model'' \<mapsto> model_ab, ''a'' \<mapsto> ens_a, ''b'' \<mapsto> node_b],
       page_obj := model_ab, page_filename := Some ''model.py''\<rparr>"

text \<open>The session that knows the names of the model and shows nothing yet.\<close>

definition named_session :: netgraph where
  "named_session = session_ab\<lparr>uids := [], networks_to_search := [model_ab]\<rparr>"

text \<open>The outside of a session whose script runs to its end and prints nothing.\<close>

definition plain_ext :: ext where
  "plain_ext = example_ext Finished Map.empty []"

text \<open>
  The model after the script has been edited and run again: new objects under the old
  names (the node \<open>b\<close> now with two dimensions), a further node \<open>c\<close>, and two
  candidates for the connection: one from the neurons of \<open>a\<close> to \<open>b\<close>, one from
  \<open>a\<close> to \<open>c\<close>.
\<close>

definition ens_a2 :: obj where
  "ens_a2 = Ensemble 11 None 1 3"

definition node_b2 :: obj where
  "node_b2 = Node 12 None None 2"

definition node_c2 :: obj where
  "node_c2 = Node 14 None None 1"


definition conn_ac2 :: obj where
  "conn_ac2 = Connection 13 None ens_a2 node_c2"

definition model_ab2 :: "obj \<Rightarrow> obj" where
  "model_ab2 c = Network 10 None [ens_a2] [node_b2, node_c2] [] [c]"

definition names_ab2 :: "obj \<Rightarrow> (obj \<rightharpoonup> string)" where
  "names_ab2 c = [model_ab2 c \<mapsto> ''model'', ens_a2 \<mapsto> ''a'', node_b2 \<mapsto> ''b'',
                  node_c2 \<mapsto> ''c'', c \<mapsto> ''model.connections[0]'']"

definition finder_ab2 :: "obj \<Rightarrow> name_finder" where
  "finder_ab2 c = \<lparr>names = names_ab2 c, known_name = names_ab2 c\<rparr>"

text \<open>
  The session \<open>session_ab\<close> after the edited script has run, at the start of the loop
  over the uids. Every uid of the snapshot is a key of the bindings here, as a stand-in
  for its evaluation.
\<close>

definition reloading_session :: "obj \<Rightarrow> netgraph" where
  "reloading_session c =
     session_ab\<lparr>networks_to_search := [model_ab2 c], parents := Map.empty,
       page_locals := Some [''model'' \<mapsto> model_ab2 c, ''a'' \<mapsto> ens_a2, ''b'' \<mapsto> node_b2,
                            ''c'' \<mapsto> node_c2, ''model.connections[0]'' \<mapsto> c],
       page_obj := model_ab2 c\<rparr>"


text \<open>
  The same session when the edited script no longer binds the name \<open>a\<close>: the uid
  \<open>a\<close> of the snapshot does not evaluate any more.
\<close>

definition unbound_session :: netgraph where
  "unbound_session =
     (reloading_session conn_ac2)
       \<lparr>page_locals := Some [''model'' \<mapsto> model_ab2 conn_ac2, ''b'' \<mapsto> node_b2,
                            ''c'' \<mapsto> node_c2, ''model.connections[0]'' \<mapsto> conn_ac2]\<rparr>"

section \<open>Properties of the command log\<close>

lemma undo_loop_eq: "undo_loop g cs re = (cs @ map CallUndo g, rev g @ re)"
  by (induction g arbitrary: cs re) auto

lemma redo_loop_eq: "redo_loop g cs un = (cs @ map CallApply g, rev g @ un)"
  by (induction g arbitrary: cs un) auto

lemma undo_nonempty:
  assumes "lists s (page_undo_stack s) = st @ [g]"
  shows "undo s =
           s\<lparr>lists := ((lists s)(page_undo_stack s := st))
                      (page_redo_stack s :=
                         ((lists s)(page_undo_stack s := st)) (page_redo_stack s) @ [rev g]),
              calls := calls s @ map CallUndo g\<rparr>"
  using assms by (simp add: undo_def Let_def undo_loop_eq)

lemma redo_nonempty:
  assumes "lists s (page_redo_stack s) = st @ [g]"
  shows "redo s =
           s\<lparr>lists := ((lists s)(page_redo_stack s := st))
                      (page_undo_stack s :=
                         ((lists s)(page_redo_stack s := st)) (page_undo_stack s) @ [rev g]),
              calls := calls s @ map CallApply g\<rparr>"
  using assms by (simp add: redo_def Let_def redo_loop_eq)

lemma undo_empty: "lists s (page_undo_stack s) = [] \<Longrightarrow> undo s = s"
  by (simp add: undo_def)

lemma redo_empty: "lists s (page_redo_stack s) = [] \<Longrightarrow> redo s = s"
  by (simp add: redo_def)

text \<open>
  C3 (as the code has it). When the two stacks of the page are different lists and the
  top group of the undo stack is \<open>g = [a1, ..., an]\<close>, \<open>undo()\<close> pops that group,
  calls \<open>act.undo()\<close> on its actions in list order \<open>a1, ..., an\<close>, and pushes the
  reversed list \<open>[an, ..., a1]\<close> onto the redo stack. \<open>redo()\<close> is symmetric: it
  pops the top redo group, calls \<open>act.apply()\<close> in list order and pushes the reversed
  list onto the undo stack.
\<close>

theorem undo_redo_group_order:
  assumes "page_undo_stack s \<noteq> page_redo_stack s"
  shows "(lists s (page_undo_stack s) = st @ [g] \<longrightarrow>
            lists (undo s) (page_undo_stack s) = st
          \<and> lists (undo s) (page_redo_stack s) = lists s (page_redo_stack s) @ [rev g]
          \<and> calls (undo s) = calls s @ map CallUndo g)
       \<and> (lists s (page_redo_stack s) = st @ [g] \<longrightarrow>
            lists (redo s) (page_redo_stack s) = st
          \<and> lists (redo s) (page_undo_stack s) = lists s (page_undo_stack s) @ [rev g]
          \<and> calls (redo s) = calls s @ map CallApply g)"
proof (intro conjI impI)
  assume top: "lists s (page_undo_stack s) = st @ [g]"
  show "lists (undo s) (page_undo_stack s) = st"
    using assms by (simp add: undo_nonempty [OF top])
  show "lists (undo s) (page_redo_stack s) = lists s (page_redo_stack s) @ [rev g]"
    using assms by (simp add: undo_nonempty [OF top])
  show "calls (undo s) = calls s @ map CallUndo g"
    by (simp add: undo_nonempty [OF top])
next
  assume top: "lists s (page_redo_stack s) = st @ [g]"
  show "lists (redo s) (page_redo_stack s) = st"
    using assms by (simp add: redo_nonempty [OF top])
  show "lists (redo s) (page_undo_stack s) = lists s (page_undo_stack s) @ [rev g]"
    using assms by (simp add: redo_nonempty [OF top])
  show "calls (redo s) = calls s @ map CallApply g"
    by (simp add: redo_nonempty [OF top])
qed

theorem undo_redo_group_order_witness:
  "lists (undo two_action_log) 0 = []
   \<and> lists (undo two_action_log) 1 = [[Act Size 2, Act Pos 1]]
   \<and> calls (undo two_action_log) = [CallUndo (Act Pos 1), CallUndo (Act Size 2)]
   \<and> lists (redo two_action_redo_log) 1 = []
   \<and> lists (redo two_action_redo_log) 0 = [[Act Size 2, Act Pos 1]]
   \<and> calls (redo two_action_redo_log) = [CallApply (Act Pos 1), CallApply (Act Size 2)]"
proof -
  have u: "page_undo_stack two_action_log \<noteq> page_redo_stack two_action_log"
    by (simp add: two_action_log_def init_log_def)
  have ut: "lists two_action_log (page_undo_stack two_action_log) = [] @ [[Act Pos 1, Act Size 2]]"
    by (simp add: two_action_log_def init_log_def)
  have r: "page_undo_stack two_action_redo_log \<noteq> page_redo_stack two_action_redo_log"
    by (simp add: two_action_redo_log_def init_log_def)
  have rt: "lists two_action_redo_log (page_redo_stack two_action_redo_log)
              = [] @ [[Act Pos 1, Act Size 2]]"
    by (simp add: two_action_redo_log_def init_log_def)
  from undo_redo_group_order [OF u, of "[]" "[Act Pos 1, Act Size 2]"] ut
  have "lists (undo two_action_log) (page_undo_stack two_action_log) = []
      \<and> lists (undo two_action_log) (page_redo_stack two_action_log)
          = lists two_action_log (page_redo_stack two_action_log) @ [rev [Act Pos 1, Act Size 2]]
      \<and> calls (undo two_action_log) = calls two_action_log @ map CallUndo [Act Pos 1, Act Size 2]"
    by blast
  moreover
  from undo_redo_group_order [OF r, of "[]" "[Act Pos 1, Act Size 2]"] rt
  have "lists (redo two_action_redo_log) (page_redo_stack two_action_redo_log) = []
      \<and> lists (redo two_action_redo_log) (page_undo_stack two_action_redo_log)
          = lists two_action_redo_log (page_undo_stack two_action_redo_log)
              @ [rev [Act Pos 1, Act Size 2]]
      \<and> calls (redo two_action_redo_log)
          = calls two_action_redo_log @ map CallApply [Act Pos 1, Act Size 2]"
    by blast
  ultimately show ?thesis
    by (simp add: two_action_log_def two_action_redo_log_def init_log_def)
qed

text \<open>
  C3 as the specification words it fails on a group of two different actions: the
  specification has \<open>undo()\<close> call the inverses in the order \<open>a2, a1\<close> and push
  \<open>[a1, a2]\<close>; the code calls them in the order \<open>a1, a2\<close> and pushes \<open>[a2, a1]\<close>.
\<close>

theorem undo_order_counterexample:
  "calls (undo two_action_log) = [CallUndo (Act Pos 1), CallUndo (Act Size 2)]
   \<and> calls (undo two_action_log)
       \<noteq> calls two_action_log @ map CallUndo (rev [Act Pos 1, Act Size 2])
   \<and> lists (undo two_action_log) (page_redo_stack two_action_log) = [[Act Size 2, Act Pos 1]]
   \<and> lists (undo two_action_log) (page_redo_stack two_action_log)
       \<noteq> lists two_action_log (page_redo_stack two_action_log) @ [[Act Pos 1, Act Size 2]]"
  by (simp add: two_action_log_def init_log_def undo_def Let_def)

text \<open>
  C4 (as the code has it). When the page's stacks are the \<open>NetGraph\<close>'s own two lists,
  the command \<open>netgraph.action\<close> followed by \<open>undo()\<close> leaves the undo stack exactly as
  it was before the command, calls \<open>undo()\<close> of the new action once and nothing else,
  and leaves the redo stack holding exactly the one group of the new action, whatever
  it held before.
\<close>

theorem action_then_undo:
  assumes "page_undo_stack s = undo_stack s" and "page_redo_stack s = redo_stack s"
    and "undo_stack s \<noteq> redo_stack s"
  shows "lists (undo (action a kwargs s)) (undo_stack s) = lists s (undo_stack s)
       \<and> lists (undo (action a kwargs s)) (redo_stack s) = [[Act (action_class_of a) kwargs]]
       \<and> calls (undo (action a kwargs s)) = calls s @ [CallUndo (Act (action_class_of a) kwargs)]"
proof -
  let ?act = "Act (action_class_of a) kwargs"
  let ?s1 = "action a kwargs s"
  have top: "lists ?s1 (page_undo_stack ?s1) = lists s (undo_stack s) @ [[?act]]"
    using assms by (simp add: action_def Let_def)
  have redo_empty: "lists ?s1 (page_redo_stack ?s1) = []"
    using assms by (simp add: action_def Let_def)
  have refs: "page_undo_stack ?s1 = undo_stack s" "page_redo_stack ?s1 = redo_stack s"
    "calls ?s1 = calls s"
    using assms by (simp_all add: action_def Let_def)
  show ?thesis
    using assms redo_empty refs by (simp add: undo_nonempty [OF top])
qed

theorem action_then_undo_witness:
  "lists (undo (action ''pos'' (5::nat) init_log)) 0 = []
   \<and> lists (undo (action ''pos'' (5::nat) init_log)) 1 = [[Act Pos 5]]
   \<and> calls (undo (action ''pos'' (5::nat) init_log)) = [CallUndo (Act Pos 5)]"
proof -
  have a: "page_undo_stack (init_log :: nat command_log) = undo_stack init_log"
    and b: "page_redo_stack (init_log :: nat command_log) = redo_stack init_log"
    and c: "undo_stack (init_log :: nat command_log) \<noteq> redo_stack init_log"
    by (simp_all add: init_log_def)
  show ?thesis
    using action_then_undo [OF a b c, of "''pos''" 5]
    by (simp add: init_log_def action_class_of_def)
qed

text \<open>
  C4 as the specification words it fails already on the fresh session: after the command
  and \<open>undo()\<close> the redo stack is not what it was before the command.
\<close>

theorem action_then_undo_counterexample:
  "lists (undo (action ''pos'' (5::nat) init_log)) (page_redo_stack init_log)
     \<noteq> lists init_log (page_redo_stack init_log)"
  by (simp add: init_log_def action_def undo_def Let_def)

text \<open>
  C5. When the redo stack of the page is the \<open>NetGraph\<close>'s own redo list, and that list
  is not also its undo list, the command \<open>netgraph.action\<close> appends exactly one group,
  holding the one new action, to the undo stack and leaves the redo stack empty; a
  \<open>redo()\<close> right after it changes nothing: no stack and no call.
\<close>

theorem action_clears_redo:
  assumes "page_redo_stack s = redo_stack s" and "undo_stack s \<noteq> redo_stack s"
  shows "lists (action a kwargs s) (undo_stack s)
           = lists s (undo_stack s) @ [[Act (action_class_of a) kwargs]]
       \<and> lists (action a kwargs s) (redo_stack s) = []
       \<and> redo (action a kwargs s) = action a kwargs s"
proof -
  have "lists (action a kwargs s) (page_redo_stack (action a kwargs s)) = []"
    using assms by (simp add: action_def Let_def)
  then have "redo (action a kwargs s) = action a kwargs s"
    by (rule redo_empty)
  then show ?thesis
    using assms by (simp add: action_def Let_def)
qed

theorem action_clears_redo_witness:
  "lists (action ''size'' (3::nat) two_action_redo_log) 0 = [[Act Size 3]]
   \<and> lists (action ''size'' (3::nat) two_action_redo_log) 1 = []
   \<and> redo (action ''size'' (3::nat) two_action_redo_log)
       = action ''size'' (3::nat) two_action_redo_log"
proof -
  have a: "page_redo_stack two_action_redo_log = redo_stack two_action_redo_log"
    and b: "undo_stack two_action_redo_log \<noteq> redo_stack two_action_redo_log"
    by (simp_all add: two_action_redo_log_def init_log_def)
  show ?thesis
    using action_clears_redo [OF a b, of "''size''" 3]
    by (simp add: two_action_redo_log_def init_log_def action_class_of_def)
qed

section \<open>Properties of \<open>get_extra_info\<close>\<close>




section \<open>Commands on what is not there\<close>

text \<open>
  C6 (as the code has it). \<open>undo()\<close> on an empty undo stack and \<open>redo()\<close> on an empty
  redo stack change nothing and raise nothing. \<open>act_expand\<close> with a uid that is not in
  the snapshot changes nothing either, but it raises \<open>KeyError\<close>.
\<close>

theorem unknown_commands:
  "(lists l (page_undo_stack l) = [] \<longrightarrow> undo l = l)
   \<and> (lists l (page_redo_stack l) = [] \<longrightarrow> redo l = l)
   \<and> (\<not> known s uid \<longrightarrow> act_expand uid s = Raises KeyError s)"
  by (simp add: undo_empty redo_empty known_def act_expand_def)

theorem unknown_commands_witness:
  "undo (init_log :: nat command_log) = init_log
   \<and> redo (init_log :: nat command_log) = init_log
   \<and> act_expand ''model.a'' empty_session = Raises KeyError empty_session"
proof -
  have u: "lists (init_log :: nat command_log) (page_undo_stack init_log) = []"
    and r: "lists (init_log :: nat command_log) (page_redo_stack init_log) = []"
    by (simp_all add: init_log_def)
  have k: "\<not> known empty_session ''model.a''"
    by (simp add: known_def empty_session_def)
  show ?thesis
    using unknown_commands [of "init_log :: nat command_log" empty_session "''model.a''"] u r k
    by blast
qed

text \<open>
  C6 as the specification words it fails for \<open>act_expand\<close>: the session shows \<open>a\<close>,
  \<open>b\<close> and their connection, the uid \<open>c\<close> is not in the snapshot, and the command
  does not return.
\<close>

theorem act_expand_counterexample:
  "map_of (uids session_ab) ''c'' = None
   \<and> act_expand ''c'' session_ab \<noteq> Returns () session_ab
   \<and> act_expand ''c'' session_ab = Raises KeyError session_ab"
  by (simp add: act_expand_def session_ab_def empty_session_def)

section \<open>The start of a reload\<close>




lemma execute_stderr:
  "length (page_stderr s) < length (page_stderr (snd (execute x code s)))"
  by (auto simp add: execute_def Let_def set_error_def
      split: prod.splits exec_outcome.splits)

lemma execute_changes: "snd (execute x code s) \<noteq> s"
proof
  assume "snd (execute x code s) = s"
  then have "length (page_stderr (snd (execute x code s))) = length (page_stderr s)"
    by simp
  with execute_stderr [of s x code] show False
    by simp
qed

lemma reload_execute_session:
  "step_session (reload_execute x code ol s) = snd (execute x code s)"
  by (simp add: reload_execute_def step_session_def split: prod.splits)

lemma script_fails_editor [simp]:
  "script_fails x code (s\<lparr>page_editor_code := c\<rparr>) = script_fails x code s"
  by (simp add: script_fails_def)

text \<open>
  C7 (as the code has it). When no code is given and the text read from the watched
  file is the page's code (the text of the last execution), \<open>_reload\<close> returns at once
  and the session is as before. When the text of the file differs, it is handed to the
  editor and executed. When the code is given as the argument, nothing is compared: it
  is executed whatever the page's code is, so the reload never returns with the session
  as it was.
\<close>

theorem reload_unchanged_text:
  "(open_read x (page_filename s) = Inr code \<and> page_code s = Some code \<longrightarrow>
      reload_begin x None s = Returned s)
   \<and> (open_read x (page_filename s) = Inr code \<and> page_code s \<noteq> Some code \<longrightarrow>
      step_session (reload_begin x None s)
        = snd (execute x code (s\<lparr>page_editor_code := Some code\<rparr>)))
   \<and> step_session (reload_begin x (Some code) s) = snd (execute x code s)
   \<and> reload_begin x (Some code) s \<noteq> Returned s"
proof (intro conjI impI)
  assume "open_read x (page_filename s) = Inr code \<and> page_code s = Some code"
  then show "reload_begin x None s = Returned s"
    by (simp add: reload_begin_def)
next
  assume "open_read x (page_filename s) = Inr code \<and> page_code s \<noteq> Some code"
  then show "step_session (reload_begin x None s)
      = snd (execute x code (s\<lparr>page_editor_code := Some code\<rparr>))"
    by (simp add: reload_begin_def reload_execute_session)
next
  show run: "step_session (reload_begin x (Some code) s) = snd (execute x code s)"
    by (simp add: reload_begin_def reload_execute_session)
  show "reload_begin x (Some code) s \<noteq> Returned s"
  proof
    assume "reload_begin x (Some code) s = Returned s"
    then have "step_session (reload_begin x (Some code) s) = s"
      by (simp add: step_session_def)
    with run execute_changes [of x code s] show False
      by simp
  qed
qed

theorem reload_unchanged_text_witness:
  "reload_begin (example_ext Finished Map.empty ''model = ...'') None session_ab
     = Returned session_ab
   \<and> step_session (reload_begin (example_ext Finished Map.empty ''model = 1'') None session_ab)
     = snd (execute (example_ext Finished Map.empty ''model = 1'') ''model = 1''
         (session_ab\<lparr>page_editor_code := Some ''model = 1''\<rparr>))"
proof -
  have same: "open_read (example_ext Finished Map.empty ''model = ...'') (page_filename session_ab)
        = Inr ''model = ...'' \<and> page_code session_ab = Some ''model = ...''"
    by (simp add: example_ext_def session_ab_def empty_session_def)
  have other: "open_read (example_ext Finished Map.empty ''model = 1'') (page_filename session_ab)
        = Inr ''model = 1'' \<and> page_code session_ab \<noteq> Some ''model = 1''"
    by (simp add: example_ext_def session_ab_def empty_session_def)
  from reload_unchanged_text
    [of "example_ext Finished Map.empty ''model = ...''" session_ab "''model = ...''"] same
  have "reload_begin (example_ext Finished Map.empty ''model = ...'') None session_ab
      = Returned session_ab"
    by blast
  moreover
  from reload_unchanged_text
    [of "example_ext Finished Map.empty ''model = 1''" session_ab "''model = 1''"] other
  have "step_session (reload_begin (example_ext Finished Map.empty ''model = 1'') None session_ab)
     = snd (execute (example_ext Finished Map.empty ''model = 1'') ''model = 1''
         (session_ab\<lparr>page_editor_code := Some ''model = 1''\<rparr>))"
    by blast
  ultimately show ?thesis
    by simp
qed

text \<open>
  C7 as the specification words it fails for code given as the argument: the code is the
  page's code, letter for letter, and the reload executes it and goes on to the
  reconciliation.
\<close>

theorem reload_explicit_code_counterexample:
  "page_code session_ab = Some ''model = ...''
   \<and> reload_begin (example_ext Finished [''model'' \<mapsto> model_ab] []) (Some ''model = ...'') session_ab
       \<noteq> Returned session_ab
   \<and> page_stderr (step_session
        (reload_begin (example_ext Finished [''model'' \<mapsto> model_ab] []) (Some ''model = ...'')
           session_ab)) = [(None, None)]"
  by (simp add: session_ab_def empty_session_def reload_begin_def reload_execute_def execute_def
      set_error_def example_ext_def Let_def model_ab_def step_session_def exec_errored_def)



section \<open>Creating what is already shown\<close>

lemma config_pos_keeps [simp]:
  "uids (snd (config_pos rnd ob s)) = uids s"
  "page_names (snd (config_pos rnd ob s)) = page_names s"
  by (simp_all add: config_pos_def split: option.splits)

lemma config_size_keeps [simp]:
  "uids (snd (config_size ob s)) = uids s"
  "page_names (snd (config_size ob s)) = page_names s"
  by (simp_all add: config_size_def split: option.splits)

lemma create_object_known:
  "known s (names_uid x (page_names s) ob) \<Longrightarrow> create_object x rnd ob ty par s = Returns () s"
  by (simp add: create_object_def)

lemma create_object_result:
  assumes "create_object x rnd ob ty par s = Returns () s1"
  shows "page_names s1 = page_names s \<and> known s1 (names_uid x (page_names s) ob)"
proof (cases "known s (names_uid x (page_names s) ob)")
  case True
  with assms show ?thesis by (simp add: create_object_def)
next
  case False
  let ?s2 = "snd (config_size ob (snd (config_pos rnd ob s)))"
  from assms False show ?thesis
    by (cases "label_of (page_names ?s2) ob")
       (auto simp: create_object_def Let_def case_prod_beta known_def update_conv')
qed

text \<open>\<open>get_parents\<close> writes \<open>parents\<close> and \<open>networks_to_search\<close> and nothing else.\<close>

lemma get_parents_keeps:
  assumes "get_parents x tbl uid s = Some r"
  shows "res_state r = s\<lparr>parents := parents (res_state r),
                          networks_to_search := networks_to_search (res_state r)\<rparr>"
  using assms
  by (auto simp: get_parents_def res_state_def split: prod.splits option.splits)

lemma get_parents_fields:
  assumes "get_parents x tbl uid s = Some r"
  shows "uids (res_state r) = uids s" "page_names (res_state r) = page_names s"
    "to_be_sent (res_state r) = to_be_sent s" "client_text (res_state r) = client_text s"
    "page_config (res_state r) = page_config s" "to_be_expanded (res_state r) = to_be_expanded s"
    "page_locals (res_state r) = page_locals s"
  by (subst get_parents_keeps [OF assms], simp)+

lemma create_connection_known:
  "known s (names_uid x (page_names s) c) \<Longrightarrow> create_connection x c par s = Some (Returns () s)"
  by (simp add: create_connection_def)

lemma create_connection_result:
  assumes "create_connection x c par s = Some (Returns () s1)"
  shows "page_names s1 = page_names s \<and> known s1 (names_uid x (page_names s) c)"
proof (cases "known s (names_uid x (page_names s) c)")
  case True
  with assms show ?thesis by (simp add: create_connection_def)
next
  case False
  let ?uid = "names_uid x (page_names s) c"
  let ?s1 = "s\<lparr>uids := AList.update ?uid c (uids s)\<rparr>"
  from assms False obtain pu qu pres posts s2 s3 where
    g1: "get_parents x (page_names s) pu ?s1 = Some (Returns pres s2)"
    and g2: "get_parents x (page_names s2) qu s2 = Some (Returns posts s3)"
    and fin: "s1 = s3\<lparr>client_text := client_text s3 @ [ConnInfo ?uid (butlast pres) (butlast posts) par]\<rparr>"
    by (auto simp: create_connection_def Let_def split: sum.splits option.splits res.splits)
  from get_parents_fields [OF g1] have k2: "uids s2 = uids ?s1" "page_names s2 = page_names s"
    by (simp_all add: res_state_def)
  from get_parents_fields [OF g2] have k3: "uids s3 = uids s2" "page_names s3 = page_names s2"
    by (simp_all add: res_state_def)
  show ?thesis
    by (simp add: fin k2 k3 known_def update_conv')
qed

lemma returned_unit: "returned r \<Longrightarrow> r = Returns () (res_state r)"
  by (cases r) (simp_all add: returned_def res_state_def)

text \<open>
  C10. For an object or a connection whose uid is a key of the snapshot,
  \<open>create_object\<close> and \<open>create_connection\<close> return at once and leave the session as
  it is: nothing is written to the client, and the snapshot, the configuration and the
  parents are untouched. A call that has returned has entered the uid, so a second call
  for the same object returns at once and leaves the session as the first call left it,
  whatever its other arguments are.
\<close>

theorem create_idempotent:
  "(known s (names_uid x (page_names s) ob) \<longrightarrow>
      create_object x rnd ob ty par s = Returns () s)
   \<and> (known s (names_uid x (page_names s) conn) \<longrightarrow>
      create_connection x conn par s = Some (Returns () s))
   \<and> (create_object x rnd ob ty par s = Returns () s1 \<longrightarrow>
      create_object x rnd' ob ty' par' s1 = Returns () s1)
   \<and> (create_connection x conn par s = Some (Returns () s2) \<longrightarrow>
      create_connection x conn par' s2 = Some (Returns () s2))"
proof (intro conjI impI)
  assume "known s (names_uid x (page_names s) ob)"
  then show "create_object x rnd ob ty par s = Returns () s"
    by (rule create_object_known)
next
  assume "known s (names_uid x (page_names s) conn)"
  then show "create_connection x conn par s = Some (Returns () s)"
    by (rule create_connection_known)
next
  assume "create_object x rnd ob ty par s = Returns () s1"
  then have "known s1 (names_uid x (page_names s1) ob)"
    using create_object_result by fastforce
  then show "create_object x rnd' ob ty' par' s1 = Returns () s1"
    by (rule create_object_known)
next
  assume "create_connection x conn par s = Some (Returns () s2)"
  then have "known s2 (names_uid x (page_names s2) conn)"
    using create_connection_result by fastforce
  then show "create_connection x conn par' s2 = Some (Returns () s2)"
    by (rule create_connection_known)
qed

lemma example_known:
  "known session_ab (names_uid plain_ext (page_names session_ab) ens_a)"
  "known session_ab (names_uid plain_ext (page_names session_ab) conn_ab)"
  "\<not> known named_session (names_uid plain_ext (page_names named_session) ens_a)"
  "\<not> known named_session (names_uid plain_ext (page_names named_session) conn_ab)"
  by (simp_all add: known_def named_session_def session_ab_def empty_session_def plain_ext_def
      example_ext_def names_ab_def ens_a_def node_b_def model_ab_def conn_ab_def)

lemma example_create_object:
  "returned (create_object plain_ext (1 / 2, 1 / 2) ens_a ''ens'' None named_session)"
  by (simp add: plain_ext_def create_object_def named_session_def session_ab_def
      empty_session_def example_ext_def known_def names_ab_def ens_a_def node_b_def model_ab_def
      conn_ab_def config_pos_def config_size_def default_config_def label_of_def get_label_def
      returned_def Let_def)

lemma example_create_connection:
  "\<exists>s. create_connection plain_ext conn_ab None named_session = Some (Returns () s)"
  by (simp add: create_connection_def named_session_def session_ab_def empty_session_def
      known_def pre_obj_def post_obj_def create_post_def of_neurons_def unview_def Let_def
      get_parents_def parent_chain.simps plain_ext_def example_ext_def names_ab_def ens_a_def
      node_b_def model_ab_def conn_ab_def enter_children_def)

theorem create_idempotent_witness:
  "create_object plain_ext (1 / 2, 1 / 2) ens_a ''ens'' None session_ab = Returns () session_ab
   \<and> create_connection plain_ext conn_ab None session_ab = Some (Returns () session_ab)
   \<and> \<not> known named_session (names_uid plain_ext (page_names named_session) ens_a)
   \<and> create_object plain_ext (0, 0) ens_a ''ens'' (Some ''model'')
       (res_state (create_object plain_ext (1 / 2, 1 / 2) ens_a ''ens'' None named_session))
     = Returns ()
         (res_state (create_object plain_ext (1 / 2, 1 / 2) ens_a ''ens'' None named_session))
   \<and> \<not> known named_session (names_uid plain_ext (page_names named_session) conn_ab)
   \<and> create_connection plain_ext conn_ab (Some ''model'')
       (res_state (the (create_connection plain_ext conn_ab None named_session)))
     = Some (Returns ()
         (res_state (the (create_connection plain_ext conn_ab None named_session))))"
proof -
  let ?r = "create_object plain_ext (1 / 2, 1 / 2) ens_a ''ens'' None named_session"
  let ?c = "create_connection plain_ext conn_ab None named_session"
  have first: "?r = Returns () (res_state ?r)"
    by (rule returned_unit [OF example_create_object])
  from example_create_connection have conn: "?c = Some (Returns () (res_state (the ?c)))"
    by (auto simp: res_state_def)
  note a = create_idempotent [where s = session_ab and x = plain_ext and ob = ens_a
      and conn = conn_ab and rnd = "(1 / 2, 1 / 2)" and ty = "''ens''" and par = None]
  note b = create_idempotent [where s = named_session and x = plain_ext and ob = ens_a
      and conn = conn_ab and rnd = "(1 / 2, 1 / 2)" and ty = "''ens''" and par = None
      and ?s1.0 = "res_state ?r" and ?s2.0 = "res_state (the ?c)" and rnd' = "(0, 0)"
      and ty' = "''ens''" and par' = "Some ''model''"]
  from a example_known(1,2) have
    "create_object plain_ext (1 / 2, 1 / 2) ens_a ''ens'' None session_ab = Returns () session_ab"
    "create_connection plain_ext conn_ab None session_ab = Some (Returns () session_ab)"
    by blast+
  moreover from b first conn have
    "create_object plain_ext (0, 0) ens_a ''ens'' (Some ''model'') (res_state ?r)
       = Returns () (res_state ?r)"
    "create_connection plain_ext conn_ab (Some ''model'') (res_state (the ?c))
       = Some (Returns () (res_state (the ?c)))"
    by blast+
  ultimately show ?thesis
    using example_known(3,4) by simp
qed

section \<open>Updating a kept item\<close>














section \<open>The loop over the uids\<close>












lemma reload_item_unnamed:
  assumes "getitem nf (eval_uid x uid s) = Inl e"
  shows "reload_item x nf uid old_item vars s = Some (Raises e s)"
  using assms by (simp add: reload_item_def)

lemmas example_defs = plain_ext_def example_ext_def reloading_session_def session_ab_def
  empty_session_def names_ab_def finder_ab2_def names_ab2_def model_ab_def model_ab2_def
  ens_a_def ens_a2_def node_b_def node_b2_def node_c2_def conn_ab_def conn_ac2_def
  default_config_def








text \<open>
  A uid that does not evaluate under the new bindings: the code sets \<open>new_item\<close> to
  \<open>None\<close> and then asks the name finder for the uid of \<open>None\<close>. When \<open>None\<close> has no
  name, \<open>__getitem__\<close> raises \<open>KeyError\<close>, and the pass ends there: no \<open>remove\<close> is
  queued and the uid stays in the snapshot.
\<close>

lemma reload_unresolved_raises:
  "eval_uid plain_ext ''a'' unbound_session = PyNone
   \<and> reconcile plain_ext (finder_ab2 conn_ac2) unbound_session
     = Some (Raises KeyError unbound_session)"
  by (simp add: reconcile_def reload_item_def eval_uid_def getitem_def unbound_session_def
      example_defs)

end
